theory Spec2Isabelle
  imports Main "HOL-Library.Word"
begin

section \<open>DeepPotPD: the Paddle backend of Deep Potential (DeepPotPD.h)\<close>

text \<open>
  The header declares class \<^verbatim>\<open>deepmd::DeepPotPD\<close>. Its inline members
  (\<^verbatim>\<open>cutoff\<close>, \<^verbatim>\<open>numb_types\<close>, \<^verbatim>\<open>numb_types_spin\<close>, \<^verbatim>\<open>dim_fparam\<close>,
  \<^verbatim>\<open>dim_aparam\<close>, \<^verbatim>\<open>is_aparam_nall\<close>, \<^verbatim>\<open>print_shape\<close>, \<^verbatim>\<open>numel\<close>) are
  embedded here as functions on a record of the private data members. A member
  function takes the object (\<open>this\<close>) and returns its result together with the
  object after the call; a failed \<^verbatim>\<open>assert\<close> is the error value of a sum type.
\<close>

subsection \<open>Machine types\<close>

text \<open>
  \<^verbatim>\<open>int\<close> is a 32-bit two's complement integer: a \<open>32 word\<close>, read with \<open>sint\<close>,
  compared with \<open><s\<close>; \<open>+\<close> and \<open>*\<close> wrap modulo \<open>2 ^ 32\<close>.
  A \<^verbatim>\<open>double\<close> is only stored and returned by this header, never computed with:
  it is carried as its 64-bit pattern.
  \<^verbatim>\<open>std::size_t\<close> values are sizes and indices of a vector and are natural numbers.
\<close>

type_synonym c_int = "32 word"
type_synonym c_double = "64 word"

datatype error = assertion_failed

text \<open>\<^verbatim>\<open>assert(c)\<close> of \<^verbatim>\<open><cassert>\<close>, as a checking assertion: the call
  goes on when \<open>c\<close> holds and aborts otherwise.\<close>

definition c_assert :: "bool \<Rightarrow> error + unit" where
  "c_assert c = (if c then Inr () else Inl assertion_failed)"

subsection \<open>Tensors of the inference runtime\<close>

text \<open>Modelled from the spec: \<^verbatim>\<open>paddle_infer::Tensor\<close> belongs to the inference
  runtime and is not declared in this header. The header uses one member of it,
  \<^verbatim>\<open>x.shape()\<close>, which returns a \<^verbatim>\<open>std::vector<int>\<close>.\<close>

record Tensor =
  shape :: "c_int list"

text \<open>Modelled from the spec: a shape has one entry for each dimension of the
  tensor. The inference runtime counts the dimensions of a tensor in an
  \<^verbatim>\<open>int\<close>, so every tensor it hands out has fewer than \<open>2 ^ 31\<close> of them.\<close>

definition is_tensor :: "Tensor \<Rightarrow> bool" where
  "is_tensor x = (length (shape x) < 2 ^ 31)"

subsection \<open>The data members of DeepPotPD\<close>

text \<open>
  The private data members, in the order of their declaration. The types
  \<^verbatim>\<open>paddle_infer::Config\<close>, \<^verbatim>\<open>paddle_infer::Predictor\<close> and \<^verbatim>\<open>NeighborListData\<close>
  are declared elsewhere and are the type parameters \<open>'cfg\<close>, \<open>'prd\<close> and \<open>'nl\<close>.
  A \<^verbatim>\<open>shared_ptr\<close> or \<^verbatim>\<open>unique_ptr\<close> is \<open>None\<close> when null and \<open>Some\<close> of its
  pointee otherwise.
\<close>

record ('cfg, 'prd, 'nl) DeepPotPD =
  num_intra_nthreads :: c_int
  num_inter_nthreads :: c_int
  inited :: bool
  ntypes :: c_int
  ntypes_spin :: c_int
  dfparam :: c_int
  daparam :: c_int
  aparam_nall :: c_int
  config :: "'cfg option"
  predictor :: "'prd option"
  config_fl :: "'cfg option"
  predictor_fl :: "'prd option"
  rcut :: c_double
  nlist_data :: 'nl
  max_num_neighbors :: c_int
  gpu_id :: c_int
  do_message_passing :: c_int
  gpu_enabled :: bool
  firstneigh_tensor :: "Tensor option"

subsection \<open>The inline accessors\<close>

text \<open>\<^verbatim>\<open>double cutoff() const { assert(inited); return rcut; }\<close>\<close>

definition cutoff ::
  "('cfg, 'prd, 'nl) DeepPotPD \<Rightarrow> error + (c_double \<times> ('cfg, 'prd, 'nl) DeepPotPD)" where
  "cutoff this =
     (case c_assert (inited this) of
        Inl e \<Rightarrow> Inl e
      | Inr _ \<Rightarrow> Inr (rcut this, this))"

text \<open>\<^verbatim>\<open>int numb_types() const { assert(inited); return ntypes; }\<close>\<close>

definition numb_types ::
  "('cfg, 'prd, 'nl) DeepPotPD \<Rightarrow> error + (c_int \<times> ('cfg, 'prd, 'nl) DeepPotPD)" where
  "numb_types this =
     (case c_assert (inited this) of
        Inl e \<Rightarrow> Inl e
      | Inr _ \<Rightarrow> Inr (ntypes this, this))"

text \<open>\<^verbatim>\<open>int numb_types_spin() const { assert(inited); return ntypes_spin; }\<close>\<close>

definition numb_types_spin ::
  "('cfg, 'prd, 'nl) DeepPotPD \<Rightarrow> error + (c_int \<times> ('cfg, 'prd, 'nl) DeepPotPD)" where
  "numb_types_spin this =
     (case c_assert (inited this) of
        Inl e \<Rightarrow> Inl e
      | Inr _ \<Rightarrow> Inr (ntypes_spin this, this))"

text \<open>\<^verbatim>\<open>int dim_fparam() const { assert(inited); return dfparam; }\<close>\<close>

definition dim_fparam ::
  "('cfg, 'prd, 'nl) DeepPotPD \<Rightarrow> error + (c_int \<times> ('cfg, 'prd, 'nl) DeepPotPD)" where
  "dim_fparam this =
     (case c_assert (inited this) of
        Inl e \<Rightarrow> Inl e
      | Inr _ \<Rightarrow> Inr (dfparam this, this))"

text \<open>\<^verbatim>\<open>int dim_aparam() const { assert(inited); return daparam; }\<close>\<close>

definition dim_aparam ::
  "('cfg, 'prd, 'nl) DeepPotPD \<Rightarrow> error + (c_int \<times> ('cfg, 'prd, 'nl) DeepPotPD)" where
  "dim_aparam this =
     (case c_assert (inited this) of
        Inl e \<Rightarrow> Inl e
      | Inr _ \<Rightarrow> Inr (daparam this, this))"

text \<open>\<^verbatim>\<open>bool is_aparam_nall() const { assert(inited); return aparam_nall; }\<close>
  The member \<^verbatim>\<open>aparam_nall\<close> is an \<^verbatim>\<open>int\<close>; the return statement converts it to
  \<^verbatim>\<open>bool\<close>: zero becomes false, every other value true.\<close>

definition int_to_bool :: "c_int \<Rightarrow> bool" where
  "int_to_bool v = (v \<noteq> 0)"

definition is_aparam_nall ::
  "('cfg, 'prd, 'nl) DeepPotPD \<Rightarrow> error + (bool \<times> ('cfg, 'prd, 'nl) DeepPotPD)" where
  "is_aparam_nall this =
     (case c_assert (inited this) of
        Inl e \<Rightarrow> Inl e
      | Inr _ \<Rightarrow> Inr (int_to_bool (aparam_nall this), this))"

subsection \<open>numel\<close>

text \<open>
  \<^verbatim>\<open>
  int numel(const paddle_infer::Tensor& x) const {
    int ret = 1;
    std::vector<int> x_shape = x.shape();
    for (std::size_t i = 0, n = x_shape.size(); i < n; ++i) {
      ret *= x_shape[i];
    }
    return ret;
  }
  \<close>
  The loop is the function \<open>numel_loop\<close> on the loop variables \<open>i\<close>, \<open>n\<close> and
  \<open>ret\<close>. The multiplication is that of \<open>32 word\<close>: it wraps modulo \<open>2 ^ 32\<close>,
  which is what the two's complement hardware does where C++ leaves the signed
  overflow undefined.
\<close>

function numel_loop :: "c_int list \<Rightarrow> nat \<Rightarrow> nat \<Rightarrow> c_int \<Rightarrow> c_int" where
  "numel_loop x_shape i n ret =
     (if i < n then numel_loop x_shape (i + 1) n (ret * x_shape ! i) else ret)"
  by pat_completeness auto
termination
  by (relation "measure (\<lambda>(x_shape, i, n, ret). n - i)") auto

declare numel_loop.simps [simp del]

definition numel ::
  "('cfg, 'prd, 'nl) DeepPotPD \<Rightarrow> Tensor \<Rightarrow> c_int \<times> ('cfg, 'prd, 'nl) DeepPotPD" where
  "numel this x =
     (let ret = 1;
          x_shape = shape x
      in (numel_loop x_shape 0 (length x_shape) ret, this))"

text \<open>The element count as a mathematical integer: the product of the entries.\<close>

definition shape_product :: "c_int list \<Rightarrow> int" where
  "shape_product x_shape = prod_list (map sint x_shape)"

subsection \<open>print_shape\<close>

text \<open>\<^verbatim>\<open>std::to_string(int)\<close> of the C++ standard library: the decimal digits of
  the value, after a minus sign when it is negative.\<close>

definition digit_char :: "nat \<Rightarrow> char" where
  "digit_char d = ''0123456789'' ! d"

function string_of_nat :: "nat \<Rightarrow> string" where
  "string_of_nat n =
     (if n < 10 then [digit_char n]
      else string_of_nat (n div 10) @ [digit_char (n mod 10)])"
  by pat_completeness auto
termination
  by (relation "measure (\<lambda>n. n)") auto

declare string_of_nat.simps [simp del]

definition to_string :: "c_int \<Rightarrow> string" where
  "to_string v =
     (if sint v < 0 then CHR ''-'' # string_of_nat (nat (- sint v))
      else string_of_nat (nat (sint v)))"

text \<open>
  \<^verbatim>\<open>
  void print_shape(const paddle_infer::Tensor& x) const {
    std::vector<int> x_shape = x.shape();
    std::string shape_str = "[";
    for (int i = 0, n = x_shape.size(); i < n; ++i) {
      if (i > 0) {
        shape_str += ", ";
      }
      shape_str += std::to_string(x_shape[i]);
    }
    shape_str += "]";
    std::cout << shape_str;
  }
  \<close>
  Both loop variables are \<^verbatim>\<open>int\<close>: \<open>n\<close> is \<^verbatim>\<open>x_shape.size()\<close> converted to
  \<^verbatim>\<open>int\<close>, that is, reduced modulo \<open>2 ^ 32\<close> and read as two's complement. The
  subscript \<^verbatim>\<open>x_shape[i]\<close> converts \<open>i\<close> to the 64-bit \<^verbatim>\<open>size_type\<close>.
\<close>

function print_shape_loop :: "c_int list \<Rightarrow> c_int \<Rightarrow> c_int \<Rightarrow> string \<Rightarrow> string" where
  "print_shape_loop x_shape i n shape_str =
     (if i <s n then
        print_shape_loop x_shape (i + 1) n
          ((if 0 <s i then shape_str @ '', '' else shape_str)
             @ to_string (x_shape ! unat (scast i :: 64 word)))
      else shape_str)"
  by pat_completeness auto
termination
proof (relation "measure (\<lambda>(x_shape, i, n, shape_str). nat (sint n - sint i))")
  show "wf (measure (\<lambda>(x_shape, i, n, shape_str). nat (sint n - sint i)))"
    by simp
next
  fix x_shape :: "c_int list" and i n :: c_int and shape_str :: string
  assume "i <s n"
  then have less: "sint i < sint n"
    by (simp add: word_sless_alt)
  moreover have "sint n < 2 ^ 31"
    using sint_lt [of n] by simp
  moreover have "- (2 ^ 31) \<le> sint i"
    using sint_ge [of i] by simp
  ultimately have "signed_take_bit 31 (sint i + 1) = sint i + 1"
    by (intro signed_take_bit_int_eq_self) auto
  then have "sint (i + 1) = sint i + 1"
    by (simp add: sint_word_add)
  with less show
    "((x_shape, i + 1, n,
        (if 0 <s i then shape_str @ '', '' else shape_str)
          @ to_string (x_shape ! unat (scast i :: 64 word))),
      (x_shape, i, n, shape_str))
     \<in> measure (\<lambda>(x_shape, i, n, shape_str). nat (sint n - sint i))"
    by simp
qed

declare print_shape_loop.simps [simp del]

text \<open>\<^verbatim>\<open>std::ostream\<close> of the C++ standard library, as far as the formatted
  insertion of a string reads and writes it: the characters inserted so far,
  whether the stream is \<^verbatim>\<open>good()\<close> (no error flag is set), the field width
  \<^verbatim>\<open>width()\<close>, the fill character \<^verbatim>\<open>fill()\<close>, and whether the adjustment is
  \<^verbatim>\<open>left\<close>. The exception mask is the default one (no flag throws), and the
  stream buffer takes every character it is given.\<close>

record ostream =
  os_chars :: string
  os_good :: bool
  os_width :: int
  os_fill :: char
  os_left :: bool

text \<open>\<^verbatim>\<open>os << str\<close> for a \<^verbatim>\<open>std::string\<close>, a formatted output function. On a
  stream that is not good the sentry fails and nothing is inserted; the stream
  stays not good. Otherwise the string is inserted, padded with the fill
  character up to the field width when the width exceeds its length (after the
  string under \<^verbatim>\<open>left\<close> adjustment, before it otherwise), and the width is
  reset to 0.\<close>

definition insert_string :: "ostream \<Rightarrow> string \<Rightarrow> ostream" where
  "insert_string os str =
     (if os_good os then
        (let pad = replicate (nat (os_width os - int (length str))) (os_fill os)
         in os\<lparr>os_chars := os_chars os @ (if os_left os then str @ pad else pad @ str),
               os_width := 0\<rparr>)
      else os)"

text \<open>\<open>print_shape\<close> takes and returns \<^verbatim>\<open>std::cout\<close> beside the object.\<close>

definition print_shape ::
  "('cfg, 'prd, 'nl) DeepPotPD \<Rightarrow> Tensor \<Rightarrow> ostream \<Rightarrow> ostream \<times> ('cfg, 'prd, 'nl) DeepPotPD" where
  "print_shape this x cout =
     (let x_shape = shape x;
          shape_str = ''['';
          n = (word_of_nat (length x_shape) :: c_int);
          shape_str = print_shape_loop x_shape 0 n shape_str;
          shape_str = shape_str @ '']''
      in (insert_string cout shape_str, this))"

text \<open>The string the documentation of \<open>print_shape\<close> describes: an opening
  bracket, the entries in order with a comma and a space between neighbours, a
  closing bracket.\<close>

fun separated :: "string \<Rightarrow> string list \<Rightarrow> string" where
  "separated sep [] = []"
| "separated sep [s] = s"
| "separated sep (s # t # ss) = s @ sep @ separated sep (t # ss)"

definition shape_string :: "c_int list \<Rightarrow> string" where
  "shape_string x_shape = ''['' @ separated '', '' (map to_string x_shape) @ '']''"

subsection \<open>Sample objects\<close>

text \<open>An initialised object with a cutoff radius of 6.0 (the bit pattern
  \<open>0x4018000000000000\<close>), and the same object before initialisation.\<close>

definition sample_object :: "(unit, unit, unit) DeepPotPD" where
  "sample_object =
     \<lparr>num_intra_nthreads = 1, num_inter_nthreads = 1, inited = True,
      ntypes = 2, ntypes_spin = 0, dfparam = 1, daparam = 3, aparam_nall = 1,
      config = Some (), predictor = Some (),
      config_fl = Some (), predictor_fl = Some (),
      rcut = 0x4018000000000000, nlist_data = (),
      max_num_neighbors = 0, gpu_id = 0, do_message_passing = 0,
      gpu_enabled = False, firstneigh_tensor = None\<rparr>"

definition uninitialised_object :: "(unit, unit, unit) DeepPotPD" where
  "uninitialised_object = sample_object\<lparr>inited := False\<rparr>"

text \<open>Standard output as a program starts with it (good, width 0, filling with
  spaces, no left adjustment), after the characters \<open>abc\<close>.\<close>

definition sample_cout :: ostream where
  "sample_cout =
     \<lparr>os_chars = ''abc'', os_good = True, os_width = 0, os_fill = CHR '' '',
      os_left = False\<rparr>"

section \<open>The declared interface of the evaluation members\<close>

text \<open>
  The evaluation members are declared in the header and defined elsewhere. A
  declaration is kept as data: its name, its access, its template parameters
  and its parameters in order, each with its name, its type and how it is
  passed (\<^verbatim>\<open>const T\<close> by value, \<^verbatim>\<open>const T&\<close>, or \<^verbatim>\<open>T&\<close>).
\<close>

datatype c_type =
    T_bool
  | T_int
  | T_float
  | T_double
  | T_vector c_type
  | T_InputNlist
  | T_param string

datatype passing = by_value | by_const_ref | by_ref

record parameter =
  p_name :: string
  p_type :: c_type
  p_passing :: passing

datatype access = private_member | public_member

record member_decl =
  d_name :: string
  d_access :: access
  d_template :: "string list"
  d_params :: "parameter list"

definition ref :: "c_type \<Rightarrow> string \<Rightarrow> parameter" where
  "ref t n = \<lparr>p_name = n, p_type = t, p_passing = by_ref\<rparr>"

definition const_ref :: "c_type \<Rightarrow> string \<Rightarrow> parameter" where
  "const_ref t n = \<lparr>p_name = n, p_type = t, p_passing = by_const_ref\<rparr>"

definition const_val :: "c_type \<Rightarrow> string \<Rightarrow> parameter" where
  "const_val t n = \<lparr>p_name = n, p_type = t, p_passing = by_value\<rparr>"

definition VALUETYPE :: c_type where
  "VALUETYPE = T_param ''VALUETYPE''"

definition ENERGYVTYPE :: c_type where
  "ENERGYVTYPE = T_param ''ENERGYVTYPE''"

text \<open>The private templates (lines 64 to 188 of the header).\<close>

definition decl_compute :: member_decl where
  "decl_compute =
     \<lparr>d_name = ''compute'', d_access = private_member,
      d_template = [''VALUETYPE'', ''ENERGYVTYPE''],
      d_params =
        [ref ENERGYVTYPE ''ener'',
         ref (T_vector VALUETYPE) ''force'',
         ref (T_vector VALUETYPE) ''virial'',
         ref (T_vector VALUETYPE) ''atom_energy'',
         ref (T_vector VALUETYPE) ''atom_virial'',
         const_ref (T_vector VALUETYPE) ''coord'',
         const_ref (T_vector T_int) ''atype'',
         const_ref (T_vector VALUETYPE) ''box'',
         const_ref (T_vector VALUETYPE) ''fparam'',
         const_ref (T_vector VALUETYPE) ''aparam'',
         const_val T_bool ''atomic'']\<rparr>"

definition decl_compute_nlist :: member_decl where
  "decl_compute_nlist =
     \<lparr>d_name = ''compute'', d_access = private_member,
      d_template = [''VALUETYPE'', ''ENERGYVTYPE''],
      d_params =
        [ref ENERGYVTYPE ''ener'',
         ref (T_vector VALUETYPE) ''force'',
         ref (T_vector VALUETYPE) ''virial'',
         ref (T_vector VALUETYPE) ''atom_energy'',
         ref (T_vector VALUETYPE) ''atom_virial'',
         const_ref (T_vector VALUETYPE) ''coord'',
         const_ref (T_vector T_int) ''atype'',
         const_ref (T_vector VALUETYPE) ''box'',
         const_val T_int ''nghost'',
         const_ref T_InputNlist ''lmp_list'',
         const_ref T_int ''ago'',
         const_ref (T_vector VALUETYPE) ''fparam'',
         const_ref (T_vector VALUETYPE) ''aparam'',
         const_val T_bool ''atomic'']\<rparr>"

definition decl_compute_mixed_type_3 :: member_decl where
  "decl_compute_mixed_type_3 =
     \<lparr>d_name = ''compute_mixed_type'', d_access = private_member,
      d_template = [''VALUETYPE'', ''ENERGYVTYPE''],
      d_params =
        [ref ENERGYVTYPE ''ener'',
         ref (T_vector VALUETYPE) ''force'',
         ref (T_vector VALUETYPE) ''virial'',
         const_ref T_int ''nframes'',
         const_ref (T_vector VALUETYPE) ''coord'',
         const_ref (T_vector T_int) ''atype'',
         const_ref (T_vector VALUETYPE) ''box'',
         const_ref (T_vector VALUETYPE) ''fparam'',
         const_ref (T_vector VALUETYPE) ''aparam'',
         const_val T_bool ''atomic'']\<rparr>"

definition decl_compute_mixed_type :: member_decl where
  "decl_compute_mixed_type =
     \<lparr>d_name = ''compute_mixed_type'', d_access = private_member,
      d_template = [''VALUETYPE'', ''ENERGYVTYPE''],
      d_params =
        [ref ENERGYVTYPE ''ener'',
         ref (T_vector VALUETYPE) ''force'',
         ref (T_vector VALUETYPE) ''virial'',
         ref (T_vector VALUETYPE) ''atom_energy'',
         ref (T_vector VALUETYPE) ''atom_virial'',
         const_ref T_int ''nframes'',
         const_ref (T_vector VALUETYPE) ''coord'',
         const_ref (T_vector T_int) ''atype'',
         const_ref (T_vector VALUETYPE) ''box'',
         const_ref (T_vector VALUETYPE) ''fparam'',
         const_ref (T_vector VALUETYPE) ''aparam'',
         const_val T_bool ''atomic'']\<rparr>"

text \<open>The public members \<^verbatim>\<open>computew\<close> and \<^verbatim>\<open>computew_mixed_type\<close> (lines 296 to
  369), each declared once for \<^verbatim>\<open>double\<close> and once for \<^verbatim>\<open>float\<close>; the energy
  is a \<^verbatim>\<open>std::vector<double>\<close> in both.\<close>

definition decl_computew :: "c_type \<Rightarrow> member_decl" where
  "decl_computew v =
     \<lparr>d_name = ''computew'', d_access = public_member, d_template = [],
      d_params =
        [ref (T_vector T_double) ''ener'',
         ref (T_vector v) ''force'',
         ref (T_vector v) ''virial'',
         ref (T_vector v) ''atom_energy'',
         ref (T_vector v) ''atom_virial'',
         const_ref (T_vector v) ''coord'',
         const_ref (T_vector T_int) ''atype'',
         const_ref (T_vector v) ''box'',
         const_ref (T_vector v) ''fparam'',
         const_ref (T_vector v) ''aparam'',
         const_val T_bool ''atomic'']\<rparr>"

definition decl_computew_nlist :: "c_type \<Rightarrow> member_decl" where
  "decl_computew_nlist v =
     \<lparr>d_name = ''computew'', d_access = public_member, d_template = [],
      d_params =
        [ref (T_vector T_double) ''ener'',
         ref (T_vector v) ''force'',
         ref (T_vector v) ''virial'',
         ref (T_vector v) ''atom_energy'',
         ref (T_vector v) ''atom_virial'',
         const_ref (T_vector v) ''coord'',
         const_ref (T_vector T_int) ''atype'',
         const_ref (T_vector v) ''box'',
         const_val T_int ''nghost'',
         const_ref T_InputNlist ''inlist'',
         const_ref T_int ''ago'',
         const_ref (T_vector v) ''fparam'',
         const_ref (T_vector v) ''aparam'',
         const_val T_bool ''atomic'']\<rparr>"

definition decl_computew_mixed_type :: "c_type \<Rightarrow> member_decl" where
  "decl_computew_mixed_type v =
     \<lparr>d_name = ''computew_mixed_type'', d_access = public_member, d_template = [],
      d_params =
        [ref (T_vector T_double) ''ener'',
         ref (T_vector v) ''force'',
         ref (T_vector v) ''virial'',
         ref (T_vector v) ''atom_energy'',
         ref (T_vector v) ''atom_virial'',
         const_ref T_int ''nframes'',
         const_ref (T_vector v) ''coord'',
         const_ref (T_vector T_int) ''atype'',
         const_ref (T_vector v) ''box'',
         const_ref (T_vector v) ''fparam'',
         const_ref (T_vector v) ''aparam'',
         const_val T_bool ''atomic'']\<rparr>"

definition private_templates :: "member_decl list" where
  "private_templates =
     [decl_compute, decl_compute_nlist, decl_compute_mixed_type_3, decl_compute_mixed_type]"

definition public_wrappers :: "member_decl list" where
  "public_wrappers =
     [decl_computew T_double, decl_computew T_float,
      decl_computew_nlist T_double, decl_computew_nlist T_float,
      decl_computew_mixed_type T_double, decl_computew_mixed_type T_float]"

subsection \<open>Forwarding to the templates\<close>

text \<open>
  The public members are introduced by the comment \<^verbatim>\<open>// forward to template class\<close>.
  A public member can forward its arguments, in order, to a template when the
  template's parameter list matches its own: same length, same passing, and
  types that agree once the template parameters are deduced from the
  arguments. \<open>match_type\<close> deduces the bindings of one parameter, \<open>match_params\<close>
  of a parameter list; bindings must be consistent.
\<close>

fun match_type :: "c_type \<Rightarrow> c_type \<Rightarrow> (string \<times> c_type) list option" where
  "match_type (T_param v) t = Some [(v, t)]"
| "match_type (T_vector p) (T_vector t) = match_type p t"
| "match_type T_bool t = (if t = T_bool then Some [] else None)"
| "match_type T_int t = (if t = T_int then Some [] else None)"
| "match_type T_float t = (if t = T_float then Some [] else None)"
| "match_type T_double t = (if t = T_double then Some [] else None)"
| "match_type T_InputNlist t = (if t = T_InputNlist then Some [] else None)"
| "match_type (T_vector p) t = None"

fun match_params :: "parameter list \<Rightarrow> parameter list \<Rightarrow> (string \<times> c_type) list option" where
  "match_params [] [] = Some []"
| "match_params (p # ps) (q # qs) =
     (if p_passing p = p_passing q then
        (case match_type (p_type p) (p_type q) of
           None \<Rightarrow> None
         | Some b \<Rightarrow>
             (case match_params ps qs of
                None \<Rightarrow> None
              | Some bs \<Rightarrow> Some (b @ bs)))
      else None)"
| "match_params ps qs = None"

definition consistent :: "(string \<times> c_type) list \<Rightarrow> bool" where
  "consistent bs = list_all (\<lambda>(v, t). map_of bs v = Some t) bs"

fun subst_type :: "(string \<times> c_type) list \<Rightarrow> c_type \<Rightarrow> c_type" where
  "subst_type bs (T_param v) = (case map_of bs v of None \<Rightarrow> T_param v | Some t \<Rightarrow> t)"
| "subst_type bs (T_vector t) = T_vector (subst_type bs t)"
| "subst_type bs t = t"

definition instantiate :: "(string \<times> c_type) list \<Rightarrow> member_decl \<Rightarrow> member_decl" where
  "instantiate bs d =
     d\<lparr>d_template := [],
       d_params := map (\<lambda>p. p\<lparr>p_type := subst_type bs (p_type p)\<rparr>) (d_params d)\<rparr>"

definition forward_targets :: "member_decl \<Rightarrow> member_decl list" where
  "forward_targets w =
     concat (map (\<lambda>t.
       (case match_params (d_params t) (d_params w) of
          None \<Rightarrow> []
        | Some bs \<Rightarrow> if consistent bs then [instantiate bs t] else []))
       private_templates)"

definition entry_points :: "member_decl list" where
  "entry_points = public_wrappers @ concat (map forward_targets public_wrappers)"

subsection \<open>Plain numeric vectors\<close>

definition numeric_vector :: "c_type \<Rightarrow> bool" where
  "numeric_vector t = (t = T_vector T_int \<or> t = T_vector T_float \<or> t = T_vector T_double)"

definition find_param :: "member_decl \<Rightarrow> string \<Rightarrow> parameter option" where
  "find_param d n = find (\<lambda>p. p_name p = n) (d_params d)"

definition input_vector :: "member_decl \<Rightarrow> string \<Rightarrow> bool" where
  "input_vector d n =
     (case find_param d n of
        None \<Rightarrow> False
      | Some p \<Rightarrow> p_passing p = by_const_ref \<and> numeric_vector (p_type p))"

definition output_vector :: "member_decl \<Rightarrow> string \<Rightarrow> bool" where
  "output_vector d n =
     (case find_param d n of
        None \<Rightarrow> False
      | Some p \<Rightarrow> p_passing p = by_ref \<and> numeric_vector (p_type p))"

definition plain_numeric_interface :: "member_decl \<Rightarrow> bool" where
  "plain_numeric_interface d =
     (list_all (input_vector d) [''coord'', ''atype'', ''box'', ''fparam'', ''aparam''] \<and>
      list_all (output_vector d)
        [''ener'', ''force'', ''virial'', ''atom_energy'', ''atom_virial''])"

text \<open>The parameters of a declaration that another declaration does not have,
  by name.\<close>

definition extra_params :: "member_decl \<Rightarrow> member_decl \<Rightarrow> parameter list" where
  "extra_params d d' =
     filter (\<lambda>p. p_name p \<notin> set (map p_name (d_params d'))) (d_params d)"

section \<open>The members defined outside the header\<close>

text \<open>
  The bodies of \<^verbatim>\<open>init\<close>, of the initialising constructor and of the evaluation
  members are in \<^verbatim>\<open>DeepPotPD.cc\<close>, which is not among the sources. What follows
  models them from the documentation comments of their declarations, from the
  comments on the data members \<open>config\<close>, \<open>predictor\<close>, \<open>config_fl\<close> and
  \<open>predictor_fl\<close>, and from the specification: load a serialized model, marshal
  coordinates, types, box and auxiliary parameters into tensors, invoke the
  direct graph or, for neighbor-list-based evaluation, the lower graph, and
  unmarshal energies, forces, virials and per-atom breakdowns.
\<close>

subsection \<open>Initialisation\<close>

text \<open>Modelled from the spec: the two inference graphs, named \<^verbatim>\<open>model.forward\<close>
  and \<^verbatim>\<open>model.forward_lower\<close> in the comments on the data members (lines 380
  and 383).\<close>

datatype graph = forward | forward_lower

text \<open>Modelled from the spec: where the serialized model is read from, the file
  named by \<^verbatim>\<open>model\<close> or the string \<^verbatim>\<open>file_content\<close>.\<close>

datatype model_source = read_file string | read_string string

text \<open>Modelled from the spec: \<^verbatim>\<open>paddle_infer::Config\<close> belongs to the
  inference runtime. A configuration names a model and one of its graphs.\<close>

record Config =
  cfg_model :: model_source
  cfg_graph :: graph

text \<open>Modelled from the spec: \<^verbatim>\<open>paddle_infer::Predictor\<close> belongs to the
  inference runtime. A predictor runs the graph of the configuration it was
  created from.\<close>

record Predictor =
  prd_model :: model_source
  prd_graph :: graph

text \<open>Modelled from the spec: creating a predictor from a configuration, the
  runtime's \<^verbatim>\<open>paddle_infer::CreatePredictor\<close>.\<close>

definition create_predictor :: "Config \<Rightarrow> Predictor" where
  "create_predictor c = \<lparr>prd_model = cfg_model c, prd_graph = cfg_graph c\<rparr>"

text \<open>Modelled from the spec: the body of \<^verbatim>\<open>DeepPotPD::init\<close>. The documentation
  of the declaration says of \<^verbatim>\<open>file_content\<close>: if it is not empty, DP will read
  from the string instead of the file. The object gets a configuration and a
  predictor for each of the two graphs and is marked initialised. Neither the
  specification nor the header says what \<^verbatim>\<open>gpu_rank\<close> selects or how the other
  data members are filled; the model leaves them as they are.\<close>

definition init ::
  "(Config, Predictor, 'nl) DeepPotPD \<Rightarrow> string \<Rightarrow> c_int \<Rightarrow> string
     \<Rightarrow> (Config, Predictor, 'nl) DeepPotPD" where
  "init this model gpu_rank file_content =
     (let source = (if file_content \<noteq> [] then read_string file_content else read_file model);
          cfg = \<lparr>cfg_model = source, cfg_graph = forward\<rparr>;
          cfg_fl = \<lparr>cfg_model = source, cfg_graph = forward_lower\<rparr>
      in this\<lparr>inited := True,
              config := Some cfg, predictor := Some (create_predictor cfg),
              config_fl := Some cfg_fl, predictor_fl := Some (create_predictor cfg_fl)\<rparr>)"

text \<open>The argument lists a caller can write for a declaration
  \<^verbatim>\<open>(const std::string& model, const int& gpu_rank = 0,
  const std::string& file_content = "")\<close>: default arguments are left out from
  the right.\<close>

datatype call_arguments =
    model_only string
  | model_rank string c_int
  | model_rank_content string c_int string

text \<open>The arguments \<open>init\<close> receives from a call, by the defaults of its
  declaration (lines 36 to 38): \<^verbatim>\<open>gpu_rank = 0\<close>, \<^verbatim>\<open>file_content = ""\<close>.\<close>

fun init_arguments :: "call_arguments \<Rightarrow> string \<times> c_int \<times> string" where
  "init_arguments (model_only model) = (model, 0, '''')"
| "init_arguments (model_rank model gpu_rank) = (model, gpu_rank, '''')"
| "init_arguments (model_rank_content model gpu_rank file_content) =
     (model, gpu_rank, file_content)"

text \<open>The arguments the constructor with initialisation receives from a call, by
  the defaults of its own declaration (lines 26 to 28): \<^verbatim>\<open>gpu_rank = 0\<close>,
  \<^verbatim>\<open>file_content = ""\<close>.\<close>

fun constructor_arguments :: "call_arguments \<Rightarrow> string \<times> c_int \<times> string" where
  "constructor_arguments (model_only model) = (model, 0, '''')"
| "constructor_arguments (model_rank model gpu_rank) = (model, gpu_rank, '''')"
| "constructor_arguments (model_rank_content model gpu_rank file_content) =
     (model, gpu_rank, file_content)"

text \<open>A call of \<open>init\<close>: the body runs on the arguments received.\<close>

definition init_call ::
  "(Config, Predictor, 'nl) DeepPotPD \<Rightarrow> call_arguments \<Rightarrow> (Config, Predictor, 'nl) DeepPotPD" where
  "init_call this args =
     (case init_arguments args of
        (model, gpu_rank, file_content) \<Rightarrow> init this model gpu_rank file_content)"

text \<open>Modelled from the spec: the body of the constructor with initialisation,
  which initialises the object under construction (\<open>fresh\<close>) with the arguments
  it receives.\<close>

definition construct ::
  "(Config, Predictor, 'nl) DeepPotPD \<Rightarrow> call_arguments \<Rightarrow> (Config, Predictor, 'nl) DeepPotPD" where
  "construct fresh args =
     (case constructor_arguments args of
        (model, gpu_rank, file_content) \<Rightarrow> init fresh model gpu_rank file_content)"

text \<open>The model a configuration of the object names, if it has one.\<close>

definition loaded_model :: "(Config, Predictor, 'nl) DeepPotPD \<Rightarrow> model_source option" where
  "loaded_model this = map_option cfg_model (config this)"

subsection \<open>Evaluation\<close>

text \<open>Modelled from the spec: the tensors a graph takes and gives. The inputs
  are the marshalled coordinates, types, box, frame and atomic parameters, for a
  mixed-type evaluation the number of frames, and for the lower graph the
  neighbor list. The outputs are the energy, the forces, the virial and the
  per-atom energy and virial.\<close>

record ('v, 'nl) graph_inputs =
  in_coord :: "'v list"
  in_atype :: "c_int list"
  in_box :: "'v list"
  in_fparam :: "'v list"
  in_aparam :: "'v list"
  in_nframes :: "c_int option"
  in_nlist :: "'nl option"

record 'v graph_outputs =
  out_energy :: "c_double list"
  out_force :: "'v list"
  out_virial :: "'v list"
  out_atom_energy :: "'v list"
  out_atom_virial :: "'v list"

text \<open>Modelled from the spec: what an evaluation member writes to the vectors
  of its caller. \<open>None\<close> is a vector the call does not write.\<close>

record 'v evaluation =
  ener :: "c_double list"
  force :: "'v list"
  virial :: "'v list"
  atom_energy :: "'v list option"
  atom_virial :: "'v list option"

text \<open>Modelled from the spec: unmarshalling the outputs of a graph. The
  documentation of \<^verbatim>\<open>atomic\<close> reads: whether to compute the atomic energy and
  virial.\<close>

definition unmarshal :: "bool \<Rightarrow> 'v graph_outputs \<Rightarrow> 'v evaluation" where
  "unmarshal atomic r =
     \<lparr>ener = out_energy r, force = out_force r, virial = out_virial r,
      atom_energy = (if atomic then Some (out_atom_energy r) else None),
      atom_virial = (if atomic then Some (out_atom_virial r) else None)\<rparr>"

text \<open>Modelled from the spec: the body of the \<^verbatim>\<open>compute\<close> template without a
  neighbor list. It marshals its inputs and invokes the direct graph. The
  inference runtime with the loaded model is the parameter \<open>run\<close>.\<close>

definition compute ::
  "(graph \<Rightarrow> ('v, 'nl) graph_inputs \<Rightarrow> 'v graph_outputs)
     \<Rightarrow> 'v list \<Rightarrow> c_int list \<Rightarrow> 'v list \<Rightarrow> 'v list \<Rightarrow> 'v list \<Rightarrow> bool \<Rightarrow> 'v evaluation" where
  "compute run coord atype box fparam aparam atomic =
     unmarshal atomic
       (run forward
          \<lparr>in_coord = coord, in_atype = atype, in_box = box,
           in_fparam = fparam, in_aparam = aparam,
           in_nframes = None, in_nlist = None\<rparr>)"

text \<open>Modelled from the spec: the body of the \<^verbatim>\<open>compute\<close> template with a
  neighbor list. The documentation of \<^verbatim>\<open>ago\<close> reads: update the internal
  neighbour list if ago is 0. It invokes the lower graph on the marshalled inputs
  and the internal neighbor list. Nothing says how \<^verbatim>\<open>nghost\<close> is used; it does
  not enter the model.\<close>

definition compute_nlist ::
  "(graph \<Rightarrow> ('v, 'nl) graph_inputs \<Rightarrow> 'v graph_outputs)
     \<Rightarrow> ('cfg, 'prd, 'nl) DeepPotPD
     \<Rightarrow> 'v list \<Rightarrow> c_int list \<Rightarrow> 'v list \<Rightarrow> c_int \<Rightarrow> 'nl \<Rightarrow> c_int
     \<Rightarrow> 'v list \<Rightarrow> 'v list \<Rightarrow> bool
     \<Rightarrow> 'v evaluation \<times> ('cfg, 'prd, 'nl) DeepPotPD" where
  "compute_nlist run this coord atype box nghost lmp_list ago fparam aparam atomic =
     (let this' = (if ago = 0 then this\<lparr>nlist_data := lmp_list\<rparr> else this)
      in (unmarshal atomic
            (run forward_lower
               \<lparr>in_coord = coord, in_atype = atype, in_box = box,
                in_fparam = fparam, in_aparam = aparam,
                in_nframes = None, in_nlist = Some (nlist_data this')\<rparr>),
          this'))"







subsection \<open>Sample data for the modelled members\<close>

definition fresh_object :: "(Config, Predictor, nat list) DeepPotPD" where
  "fresh_object =
     \<lparr>num_intra_nthreads = 0, num_inter_nthreads = 0, inited = False,
      ntypes = 0, ntypes_spin = 0, dfparam = 0, daparam = 0, aparam_nall = 0,
      config = None, predictor = None, config_fl = None, predictor_fl = None,
      rcut = 0, nlist_data = [], max_num_neighbors = 0, gpu_id = 0,
      do_message_passing = 0, gpu_enabled = False, firstneigh_tensor = None\<rparr>"

text \<open>Two runtimes that give the same outputs on the lower graph and different
  ones on the direct graph, and a third that differs from the first on the lower
  graph only.\<close>

definition sample_outputs :: "c_double \<Rightarrow> c_double graph_outputs" where
  "sample_outputs e =
     \<lparr>out_energy = [e], out_force = [1, 2, 3], out_virial = [0, 0, 0, 0, 0, 0, 0, 0, 0],
      out_atom_energy = [e], out_atom_virial = [0, 0, 0, 0, 0, 0, 0, 0, 0]\<rparr>"

definition runtime_a :: "graph \<Rightarrow> (c_double, nat list) graph_inputs \<Rightarrow> c_double graph_outputs" where
  "runtime_a g i = (case g of forward \<Rightarrow> sample_outputs 1 | forward_lower \<Rightarrow> sample_outputs 2)"

definition runtime_b :: "graph \<Rightarrow> (c_double, nat list) graph_inputs \<Rightarrow> c_double graph_outputs" where
  "runtime_b g i = (case g of forward \<Rightarrow> sample_outputs 3 | forward_lower \<Rightarrow> sample_outputs 2)"

definition runtime_c :: "graph \<Rightarrow> (c_double, nat list) graph_inputs \<Rightarrow> c_double graph_outputs" where
  "runtime_c g i = (case g of forward \<Rightarrow> sample_outputs 1 | forward_lower \<Rightarrow> sample_outputs 4)"

section \<open>Properties of the inline members\<close>

subsection \<open>Accessors\<close>

lemma c_assert_simps:
  "c_assert True = Inr ()" "c_assert False = Inl assertion_failed"
  by (simp_all add: c_assert_def)

text \<open>
  Claim C6. On an initialised object \<open>cutoff\<close> returns the stored cutoff radius
  \<open>rcut\<close> and the object is unchanged. On an object that is not initialised the
  assertion on \<open>inited\<close> fails; hence whenever \<open>cutoff\<close> returns a value, the object
  was initialised.
\<close>

theorem cutoff_returns_rcut:
  "(inited this \<longrightarrow> cutoff this = Inr (rcut this, this)) \<and>
   (\<not> inited this \<longrightarrow> cutoff this = Inl assertion_failed) \<and>
   (\<forall>r. cutoff this = Inr r \<longrightarrow> inited this)"
  by (cases "inited this") (simp_all add: cutoff_def c_assert_simps)

theorem cutoff_returns_rcut_witness:
  "inited sample_object \<and>
   cutoff sample_object = Inr (0x4018000000000000, sample_object) \<and>
   \<not> inited uninitialised_object \<and>
   cutoff uninitialised_object = Inl assertion_failed"
  using cutoff_returns_rcut [of sample_object] cutoff_returns_rcut [of uninitialised_object]
  by (simp add: sample_object_def uninitialised_object_def)

text \<open>
  Claim C7. On an initialised object \<open>dim_fparam\<close> returns \<open>dfparam\<close> and
  \<open>dim_aparam\<close> returns \<open>daparam\<close>, each leaving the whole object as it was; on an
  object that is not initialised the assertion of either accessor fails.
\<close>

theorem dim_param_accessors:
  "(inited this \<longrightarrow>
      dim_fparam this = Inr (dfparam this, this) \<and>
      dim_aparam this = Inr (daparam this, this)) \<and>
   (\<not> inited this \<longrightarrow>
      dim_fparam this = Inl assertion_failed \<and>
      dim_aparam this = Inl assertion_failed)"
  by (cases "inited this") (simp_all add: dim_fparam_def dim_aparam_def c_assert_simps)

theorem dim_param_accessors_witness:
  "inited sample_object \<and>
   dim_fparam sample_object = Inr (1, sample_object) \<and>
   dim_aparam sample_object = Inr (3, sample_object) \<and>
   \<not> inited uninitialised_object \<and>
   dim_fparam uninitialised_object = Inl assertion_failed \<and>
   dim_aparam uninitialised_object = Inl assertion_failed"
  using dim_param_accessors [of sample_object] dim_param_accessors [of uninitialised_object]
  by (simp add: sample_object_def uninitialised_object_def)

text \<open>
  Claim C9. On an initialised object \<open>is_aparam_nall\<close> returns true exactly when
  the \<^verbatim>\<open>int\<close> member \<open>aparam_nall\<close> is not zero, and leaves the object unchanged.
\<close>

theorem is_aparam_nall_nonzero:
  "inited this \<Longrightarrow> is_aparam_nall this = Inr (aparam_nall this \<noteq> 0, this)"
  by (simp add: is_aparam_nall_def c_assert_simps int_to_bool_def)

theorem is_aparam_nall_nonzero_witness:
  "inited sample_object \<and>
   is_aparam_nall sample_object = Inr (True, sample_object) \<and>
   is_aparam_nall (sample_object\<lparr>aparam_nall := - 5\<rparr>)
     = Inr (True, sample_object\<lparr>aparam_nall := - 5\<rparr>) \<and>
   is_aparam_nall (sample_object\<lparr>aparam_nall := 0\<rparr>)
     = Inr (False, sample_object\<lparr>aparam_nall := 0\<rparr>)"
  using is_aparam_nall_nonzero [of sample_object]
    is_aparam_nall_nonzero [of "sample_object\<lparr>aparam_nall := - 5\<rparr>"]
    is_aparam_nall_nonzero [of "sample_object\<lparr>aparam_nall := 0\<rparr>"]
  by (simp add: sample_object_def)

subsection \<open>numel\<close>

lemma numel_loop_foldl:
  "i \<le> n \<Longrightarrow> n \<le> length x_shape \<Longrightarrow>
     numel_loop x_shape i n ret = foldl (*) ret (take (n - i) (drop i x_shape))"
proof (induction x_shape i n ret rule: numel_loop.induct)
  case (1 x_shape i n ret)
  show ?case
  proof (cases "i < n")
    case True
    with 1(3) have "i < length x_shape" by simp
    then have "drop i x_shape = x_shape ! i # drop (i + 1) x_shape"
      by (simp add: Cons_nth_drop_Suc)
    moreover from True have "n - i = Suc (n - (i + 1))" by simp
    ultimately have "take (n - i) (drop i x_shape)
        = x_shape ! i # take (n - (i + 1)) (drop (i + 1) x_shape)"
      by (simp only: take_Suc_Cons)
    moreover have "numel_loop x_shape i n ret = numel_loop x_shape (i + 1) n (ret * x_shape ! i)"
      using True by (subst numel_loop.simps) simp
    ultimately show ?thesis
      using True 1 by simp
  next
    case False
    with 1(2) have "n - i = 0" by simp
    with False show ?thesis by (subst numel_loop.simps) simp
  qed
qed

lemma foldl_mult_prod_list:
  fixes a :: "'a :: comm_monoid_mult"
  shows "foldl (*) a xs = a * prod_list xs"
  by (induction xs arbitrary: a) (simp_all add: mult.assoc)

lemma prod_list_word_of_int:
  fixes xs :: "'a :: len word list"
  shows "prod_list xs = word_of_int (prod_list (map sint xs))"
  by (induction xs) simp_all

lemma numel_fst:
  "fst (numel this x) = word_of_int (shape_product (shape x))"
  by (simp add: numel_def Let_def numel_loop_foldl foldl_mult_prod_list shape_product_def
      prod_list_word_of_int [symmetric])

lemma sint_word_of_int_eq_iff:
  "(sint (word_of_int k :: 32 word) = k) = (- (2 ^ 31) \<le> k \<and> k < 2 ^ 31)"
  by (simp add: sint_sbintrunc' signed_take_bit_int_eq_self_iff)

text \<open>
  Claim C8. \<open>numel\<close> multiplies the entries of the shape into a 32-bit
  accumulator that starts at 1, so the empty shape gives 1. The result is the
  product of the entries reduced modulo \<open>2 ^ 32\<close>; read as a signed \<^verbatim>\<open>int\<close> it is
  the true element count exactly when that count lies in the range of a 32-bit
  signed integer, and differs from it otherwise.
\<close>

theorem numel_wraps:
  "fst (numel this x) = foldl (*) 1 (shape x) \<and>
   fst (numel this \<lparr>shape = []\<rparr>) = 1 \<and>
   uint (fst (numel this x)) = shape_product (shape x) mod 2 ^ 32 \<and>
   (sint (fst (numel this x)) = shape_product (shape x))
     = (- (2 ^ 31) \<le> shape_product (shape x) \<and> shape_product (shape x) < 2 ^ 31)"
proof (intro conjI)
  show "fst (numel this x) = foldl (*) 1 (shape x)"
    by (simp add: numel_def Let_def numel_loop_foldl)
  show "fst (numel this \<lparr>shape = []\<rparr>) = 1"
    by (simp add: numel_def numel_loop.simps)
  show "uint (fst (numel this x)) = shape_product (shape x) mod 2 ^ 32"
    by (simp only: numel_fst uint_word_of_int) simp
  show "(sint (fst (numel this x)) = shape_product (shape x))
     = (- (2 ^ 31) \<le> shape_product (shape x) \<and> shape_product (shape x) < 2 ^ 31)"
    by (simp only: numel_fst sint_word_of_int_eq_iff)
qed

theorem numel_wraps_witness:
  "fst (numel sample_object \<lparr>shape = [2, 3, 4]\<rparr>) = 24 \<and>
   shape_product [65536, 65536] = 4294967296 \<and>
   uint (fst (numel sample_object \<lparr>shape = [65536, 65536]\<rparr>)) = 0 \<and>
   sint (fst (numel sample_object \<lparr>shape = [65536, 65536]\<rparr>)) \<noteq> shape_product [65536, 65536]"
  using numel_wraps [of sample_object "\<lparr>shape = [2, 3, 4]\<rparr>"]
    numel_wraps [of sample_object "\<lparr>shape = [65536, 65536]\<rparr>"]
  by (simp add: shape_product_def)

subsection \<open>print_shape\<close>

lemma size_type_of_int:
  fixes i :: "32 word"
  assumes "0 \<le> sint i"
  shows "unat (scast i :: 64 word) = nat (sint i)"
proof -
  have "sint i < 2 ^ 31" using sint_lt [of i] by simp
  then have "sint i < 2 ^ 64" by (rule less_trans) simp
  then have tb: "take_bit 64 (sint i) = sint i"
    using assms by (simp add: take_bit_int_eq_self)
  have "uint (scast i :: 64 word) = uint (word_of_int (sint i) :: 64 word)"
    by (simp only: scast_eq)
  also have "\<dots> = take_bit 64 (sint i)"
    by (simp only: uint_word_of_int_eq len_bit0 len_num1) simp
  finally have "uint (scast i :: 64 word) = sint i"
    using tb by simp
  then show ?thesis
    by (simp only: unat_eq_nat_uint)
qed

lemma sint_of_nat_int:
  assumes "k < 2 ^ 31"
  shows "sint (word_of_nat k :: 32 word) = int k"
proof -
  have "sint (word_of_nat k :: 32 word) = signed_take_bit 31 (int k)"
    by (simp add: signed_of_nat)
  moreover have "signed_take_bit 31 (int k) = int k"
    using assms by (intro signed_take_bit_int_eq_self) auto
  ultimately show ?thesis by simp
qed

lemma separated_snoc:
  "separated sep (ss @ [s]) = (if ss = [] then s else separated sep ss @ sep @ s)"
  by (induction sep ss rule: separated.induct) auto

lemma print_shape_loop_inv:
  assumes "length xs < 2 ^ 31"
  shows "k \<le> length xs \<Longrightarrow>
    print_shape_loop xs (word_of_nat k) (word_of_nat (length xs))
      (''['' @ separated '', '' (map to_string (take k xs)))
    = ''['' @ separated '', '' (map to_string xs)"
proof (induction "length xs - k" arbitrary: k)
  case 0
  then have "k = length xs" by simp
  then show ?case
    by (subst print_shape_loop.simps) (simp add: word_sless_alt)
next
  case (Suc d)
  then have k: "k < length xs" by simp
  with assms have k31: "k < 2 ^ 31" by simp
  have sk: "sint (word_of_nat k :: 32 word) = int k"
    using k31 by (rule sint_of_nat_int)
  have sn: "sint (word_of_nat (length xs) :: 32 word) = int (length xs)"
    using assms by (rule sint_of_nat_int)
  have lt: "(word_of_nat k :: 32 word) <s word_of_nat (length xs)"
    using k by (simp add: word_sless_alt sk sn)
  have pos: "(0 <s (word_of_nat k :: 32 word)) = (0 < k)"
    by (simp add: word_sless_alt sk)
  have ix: "unat (scast (word_of_nat k :: 32 word) :: 64 word) = k"
    using size_type_of_int [of "word_of_nat k"] by (simp add: sk)
  have tk: "take (Suc k) xs = take k xs @ [xs ! k]"
    using k by (simp add: take_Suc_conv_app_nth)
  have step: "(if 0 < k then (''['' @ separated '', '' (map to_string (take k xs))) @ '', ''
               else ''['' @ separated '', '' (map to_string (take k xs))) @ to_string (xs ! k)
      = ''['' @ separated '', '' (map to_string (take (Suc k) xs))"
  proof -
    have "map to_string (take (Suc k) xs) = map to_string (take k xs) @ [to_string (xs ! k)]"
      by (simp only: tk map_append list.map)
    then have "separated '', '' (map to_string (take (Suc k) xs))
        = (if map to_string (take k xs) = [] then to_string (xs ! k)
           else separated '', '' (map to_string (take k xs)) @ '', '' @ to_string (xs ! k))"
      by (simp only: separated_snoc)
    moreover have "(map to_string (take k xs) = []) = (k = 0)"
      using k by auto
    ultimately show ?thesis
      by simp
  qed
  have "print_shape_loop xs (word_of_nat k) (word_of_nat (length xs))
      (''['' @ separated '', '' (map to_string (take k xs)))
     = print_shape_loop xs (word_of_nat (Suc k)) (word_of_nat (length xs))
      (''['' @ separated '', '' (map to_string (take (Suc k) xs)))"
    apply (subst print_shape_loop.simps)
    apply (simp only: lt pos ix if_True step)
    apply (simp add: add.commute)
    done
  also have "\<dots> = ''['' @ separated '', '' (map to_string xs)"
    using Suc k by (intro Suc.hyps(1)) auto
  finally show ?case .
qed


lemma print_shape_loop_all:
  assumes "length xs < 2 ^ 31"
  shows "print_shape_loop xs 0 (word_of_nat (length xs)) ''[''
    = ''['' @ separated '', '' (map to_string xs)"
  using print_shape_loop_inv [OF assms, of 0] by simp

lemma print_shape_inserts:
  assumes "is_tensor x"
  shows "print_shape this x cout = (insert_string cout (shape_string (shape x)), this)"
  using assms
  by (simp add: print_shape_def Let_def is_tensor_def print_shape_loop_all shape_string_def)

lemma insert_string_unpadded:
  assumes "os_good os" and "os_width os \<le> int (length str)"
  shows "insert_string os str = os\<lparr>os_chars := os_chars os @ str, os_width := 0\<rparr>"
  using assms by (simp add: insert_string_def Let_def)

text \<open>
  Claim C10, as amended. For every tensor, when \<^verbatim>\<open>std::cout\<close> is good and its
  field width does not exceed the length of the string (the default width 0
  never does), \<open>print_shape\<close> inserts into standard output exactly the opening
  bracket, the entries of the shape in order separated by a comma and a space,
  and the closing bracket (\<open>[]\<close> for the empty shape), resets the field width,
  and leaves the object unchanged.
\<close>

theorem print_shape_writes_shape_string:
  "is_tensor x \<Longrightarrow> os_good cout \<Longrightarrow> os_width cout \<le> int (length (shape_string (shape x))) \<Longrightarrow>
     print_shape this x cout
       = (cout\<lparr>os_chars := os_chars cout @ shape_string (shape x), os_width := 0\<rparr>, this) \<and>
     (shape x = [] \<longrightarrow> os_chars (fst (print_shape this x cout)) = os_chars cout @ ''[]'')"
proof -
  assume tensor: "is_tensor x" and good: "os_good cout"
    and width: "os_width cout \<le> int (length (shape_string (shape x)))"
  have written: "print_shape this x cout
      = (cout\<lparr>os_chars := os_chars cout @ shape_string (shape x), os_width := 0\<rparr>, this)"
    by (simp only: print_shape_inserts [OF tensor] insert_string_unpadded [OF good width])
  moreover have "os_chars (fst (print_shape this x cout)) = os_chars cout @ ''[]''"
    if "shape x = []"
    using that by (simp add: written shape_string_def)
  ultimately show ?thesis
    by blast
qed

theorem print_shape_writes_shape_string_witness:
  "is_tensor \<lparr>shape = [2, 3, - 1]\<rparr> \<and> os_good sample_cout \<and>
   os_width sample_cout \<le> int (length (shape_string (shape \<lparr>shape = [2, 3, - 1]\<rparr>))) \<and>
   print_shape sample_object \<lparr>shape = [2, 3, - 1]\<rparr> sample_cout
     = (sample_cout\<lparr>os_chars := ''abc[2, 3, -1]''\<rparr>, sample_object)"
  using print_shape_writes_shape_string [of "\<lparr>shape = [2, 3, - 1]\<rparr>" sample_cout sample_object]
  by (simp add: is_tensor_def sample_cout_def shape_string_def to_string_def
      string_of_nat.simps digit_char_def)

text \<open>
  Claim C10 as stated, for every call, fails in two states of \<^verbatim>\<open>std::cout\<close> a
  caller can set. After an error flag was set nothing is written; and under a
  field width of 8 the string \<open>[2, 3]\<close> is written after two fill characters.
\<close>

theorem print_shape_stream_state:
  "shape_string (shape \<lparr>shape = [2, 3]\<rparr>) = ''[2, 3]'' \<and>
   os_chars (fst (print_shape sample_object \<lparr>shape = [2, 3]\<rparr> (sample_cout\<lparr>os_good := False\<rparr>)))
     = ''abc'' \<and>
   os_chars (fst (print_shape sample_object \<lparr>shape = [2, 3]\<rparr> (sample_cout\<lparr>os_width := 8\<rparr>)))
     = ''abc  [2, 3]''"
proof -
  have tensor: "is_tensor \<lparr>shape = [2, 3]\<rparr>"
    by (simp add: is_tensor_def)
  have str: "shape_string [2, 3] = ''[2, 3]''"
    by (simp add: shape_string_def to_string_def string_of_nat.simps digit_char_def)
  show ?thesis
    by (simp add: print_shape_inserts [OF tensor] str insert_string_def sample_cout_def Let_def
        eval_nat_numeral)
qed

section \<open>Properties of the declared interface\<close>

text \<open>
  Claim C1. The entry points of potential evaluation are the six public
  declarations of \<open>computew\<close> and \<open>computew_mixed_type\<close> and the instances of the
  private templates \<open>compute\<close> and \<open>compute_mixed_type\<close> they can forward their
  arguments to. Each of them takes \<open>coord\<close>, \<open>atype\<close>, \<open>box\<close>, \<open>fparam\<close> and
  \<open>aparam\<close> as constant references to vectors of \<^verbatim>\<open>int\<close>, \<^verbatim>\<open>float\<close> or
  \<^verbatim>\<open>double\<close>, and returns \<open>ener\<close>, \<open>force\<close>, \<open>virial\<close>, \<open>atom_energy\<close> and
  \<open>atom_virial\<close> through references to such vectors; an instance of a template
  has the parameter types of the public member that forwards to it. (The
  three-output overload of \<open>compute_mixed_type\<close> matches the argument list of
  no public member and is not among the entry points.)
\<close>

theorem entry_points_plain_numeric:
  "list_all plain_numeric_interface entry_points \<and>
   map d_name entry_points =
     [''computew'', ''computew'', ''computew'', ''computew'',
      ''computew_mixed_type'', ''computew_mixed_type'',
      ''compute'', ''compute'', ''compute'', ''compute'',
      ''compute_mixed_type'', ''compute_mixed_type''] \<and>
   list_all
     (\<lambda>w. list_all (\<lambda>t. map p_type (d_params t) = map p_type (d_params w))
            (forward_targets w))
     public_wrappers"
  by code_simp

section \<open>Properties of the modelled members\<close>

text \<open>
  Claim C2. After \<open>init\<close> the object is initialised and holds two
  configuration and predictor pairs: \<open>config\<close> and \<open>predictor\<close> are bound to the
  direct graph \<open>forward\<close>, \<open>config_fl\<close> and \<open>predictor_fl\<close> to the lower graph
  \<open>forward_lower\<close>, and the two pairs are different. The pairs are separate data
  members: writing one pair leaves the other as it was.
\<close>

theorem init_two_predictor_pairs:
  "inited (init this model gpu_rank file_content) \<and>
   map_option cfg_graph (config (init this model gpu_rank file_content)) = Some forward \<and>
   map_option prd_graph (predictor (init this model gpu_rank file_content)) = Some forward \<and>
   map_option cfg_graph (config_fl (init this model gpu_rank file_content)) = Some forward_lower \<and>
   map_option prd_graph (predictor_fl (init this model gpu_rank file_content))
     = Some forward_lower \<and>
   config (init this model gpu_rank file_content)
     \<noteq> config_fl (init this model gpu_rank file_content) \<and>
   predictor (init this model gpu_rank file_content)
     \<noteq> predictor_fl (init this model gpu_rank file_content) \<and>
   config (this\<lparr>config_fl := c, predictor_fl := p\<rparr>) = config this \<and>
   predictor (this\<lparr>config_fl := c, predictor_fl := p\<rparr>) = predictor this \<and>
   config_fl (this\<lparr>config := c, predictor := p\<rparr>) = config_fl this \<and>
   predictor_fl (this\<lparr>config := c, predictor := p\<rparr>) = predictor_fl this"
  by (simp add: init_def Let_def create_predictor_def)

text \<open>
  Claim C3. The \<open>compute\<close> overload for neighbor-list-based evaluation is the one
  that takes, beyond the parameters of the other overload, the number of ghost
  atoms \<open>nghost\<close>, the input neighbor list and the counter \<open>ago\<close>, and so
  does the public member \<open>computew\<close> with a neighbor list. Its result
  depends on the runtime only through the lower graph, and the result of the
  overload without a neighbor list only through the direct graph.
\<close>

theorem neighbor_list_overload_drives_lower_graph:
  "extra_params decl_compute_nlist decl_compute =
     [const_val T_int ''nghost'', const_ref T_InputNlist ''lmp_list'', const_ref T_int ''ago''] \<and>
   extra_params decl_compute decl_compute_nlist = [] \<and>
   extra_params (decl_computew_nlist v) (decl_computew v) =
     [const_val T_int ''nghost'', const_ref T_InputNlist ''inlist'', const_ref T_int ''ago''] \<and>
   (run forward_lower = run' forward_lower \<longrightarrow>
      compute_nlist run this coord atype box nghost lmp_list ago fparam aparam atomic
        = compute_nlist run' this coord atype box nghost lmp_list ago fparam aparam atomic) \<and>
   (run forward = run' forward \<longrightarrow>
      compute run coord atype box fparam aparam atomic
        = compute run' coord atype box fparam aparam atomic)"
proof (intro conjI impI)
  show "extra_params decl_compute_nlist decl_compute =
     [const_val T_int ''nghost'', const_ref T_InputNlist ''lmp_list'', const_ref T_int ''ago'']"
    by code_simp
  show "extra_params decl_compute decl_compute_nlist = []"
    by code_simp
  show "extra_params (decl_computew_nlist v) (decl_computew v) =
     [const_val T_int ''nghost'', const_ref T_InputNlist ''inlist'', const_ref T_int ''ago'']"
    by (simp add: extra_params_def decl_computew_nlist_def decl_computew_def
        const_val_def const_ref_def ref_def)
  show "compute_nlist run this coord atype box nghost lmp_list ago fparam aparam atomic
      = compute_nlist run' this coord atype box nghost lmp_list ago fparam aparam atomic"
    if "run forward_lower = run' forward_lower"
    using that by (simp add: compute_nlist_def)
  show "compute run coord atype box fparam aparam atomic
      = compute run' coord atype box fparam aparam atomic"
    if "run forward = run' forward"
    using that by (simp add: compute_def)
qed

theorem neighbor_list_overload_drives_lower_graph_witness:
  "runtime_a forward_lower = runtime_b forward_lower \<and>
   compute_nlist runtime_a fresh_object [] [] [] 0 [1] 0 [] [] True
     = compute_nlist runtime_b fresh_object [] [] [] 0 [1] 0 [] [] True \<and>
   compute_nlist runtime_a fresh_object [] [] [] 0 [1] 0 [] [] True
     \<noteq> compute_nlist runtime_c fresh_object [] [] [] 0 [1] 0 [] [] True \<and>
   runtime_a forward = runtime_c forward \<and>
   compute runtime_a [] [] [] [] [] True = compute runtime_c [] [] [] [] [] True \<and>
   compute runtime_a [] [] [] [] [] True \<noteq> compute runtime_b [] [] [] [] [] True"
proof -
  have lower: "runtime_a forward_lower = runtime_b forward_lower"
    by (simp add: runtime_a_def runtime_b_def fun_eq_iff)
  have direct: "runtime_a forward = runtime_c forward"
    by (simp add: runtime_a_def runtime_c_def fun_eq_iff)
  have "compute_nlist runtime_a fresh_object [] [] [] 0 [1] 0 [] [] True
      \<noteq> compute_nlist runtime_c fresh_object [] [] [] 0 [1] 0 [] [] True"
    by (simp add: compute_nlist_def unmarshal_def runtime_a_def runtime_c_def sample_outputs_def)
  moreover have "compute runtime_a [] [] [] [] [] True \<noteq> compute runtime_b [] [] [] [] [] True"
    by (simp add: compute_def unmarshal_def runtime_a_def runtime_b_def sample_outputs_def)
  ultimately show ?thesis
    using lower direct
      neighbor_list_overload_drives_lower_graph
        [where run = runtime_a and run' = runtime_b and this = fresh_object
           and coord = "[]" and atype = "[]" and box = "[]" and nghost = 0
           and lmp_list = "[1]" and ago = 0 and fparam = "[]" and aparam = "[]"
           and atomic = True]
      neighbor_list_overload_drives_lower_graph
        [where run = runtime_a and run' = runtime_c and this = fresh_object
           and coord = "[]" and atype = "[]" and box = "[]" and nghost = 0
           and lmp_list = "[1]" and ago = 0 and fparam = "[]" and aparam = "[]"
           and atomic = True]
    by simp
qed

text \<open>
  Claim C4. \<open>init\<close> loads the model named by \<open>model\<close>, unless \<open>file_content\<close> is
  not empty: then the model is read from that string. A call that omits
  \<open>gpu_rank\<close> passes 0 for it, and one that omits \<open>file_content\<close> passes the empty
  string; the same holds of the initialising constructor, whose body runs
  \<open>init\<close> on the arguments it receives.
\<close>

theorem init_loads_model:
  "(file_content \<noteq> [] \<longrightarrow>
      loaded_model (init this model gpu_rank file_content) = Some (read_string file_content)) \<and>
   (file_content = [] \<longrightarrow>
      loaded_model (init this model gpu_rank file_content) = Some (read_file model)) \<and>
   init_arguments (model_only model) = (model, 0, []) \<and>
   init_arguments (model_rank model gpu_rank) = (model, gpu_rank, []) \<and>
   init_arguments (model_rank_content model gpu_rank file_content)
     = (model, gpu_rank, file_content) \<and>
   constructor_arguments (model_only model) = (model, 0, []) \<and>
   constructor_arguments (model_rank model gpu_rank) = (model, gpu_rank, []) \<and>
   constructor_arguments (model_rank_content model gpu_rank file_content)
     = (model, gpu_rank, file_content) \<and>
   init_call this args
     = init this (fst (init_arguments args)) (fst (snd (init_arguments args)))
         (snd (snd (init_arguments args))) \<and>
   construct this args
     = init this (fst (constructor_arguments args)) (fst (snd (constructor_arguments args)))
         (snd (snd (constructor_arguments args)))"
  by (simp add: loaded_model_def init_def init_call_def construct_def Let_def split: prod.splits)

theorem init_loads_model_witness:
  "loaded_model (init fresh_object ''frozen_model.json'' 0 ''content'')
     = Some (read_string ''content'') \<and>
   loaded_model (init fresh_object ''frozen_model.json'' 0 [])
     = Some (read_file ''frozen_model.json'') \<and>
   init_arguments (model_only ''frozen_model.json'') = (''frozen_model.json'', 0, []) \<and>
   loaded_model (init_call fresh_object (model_only ''frozen_model.json''))
     = Some (read_file ''frozen_model.json'') \<and>
   loaded_model (construct fresh_object (model_rank_content ''frozen_model.json'' 1 ''content''))
     = Some (read_string ''content'')"
  using
    init_loads_model [where file_content = "''content''" and this = fresh_object
      and model = "''frozen_model.json''" and gpu_rank = 0
      and args = "model_only ''frozen_model.json''"]
    init_loads_model [where file_content = "[]" and this = fresh_object
      and model = "''frozen_model.json''" and gpu_rank = 0
      and args = "model_only ''frozen_model.json''"]
    init_loads_model [where file_content = "''content''" and this = fresh_object
      and model = "''frozen_model.json''" and gpu_rank = 1
      and args = "model_rank_content ''frozen_model.json'' 1 ''content''"]
  by simp





end
